theory Spec2Isabelle
  imports Complex_Main "HOL-Library.Sublist" "HOL-Library.AList"
begin

section \<open>The service of \<^verbatim>\<open>app/main.py\<close>\<close>

text \<open>
  \<^verbatim>\<open>app/main.py\<close> is a FastAPI application with three routes, \<^verbatim>\<open>/\<close>,
  \<^verbatim>\<open>/get_info\<close> and \<^verbatim>\<open>/metrics\<close>, and seven module-level Prometheus metrics.
  The module-level metrics and \<^verbatim>\<open>START_TIME\<close> are the state of the process; a handler
  takes the state and returns its outcome together with the state it leaves behind.
  What a handler reads from outside the process during one request (the environment,
  the host name, the clock and the statistics of \<^verbatim>\<open>psutil\<close> and \<^verbatim>\<open>threading\<close>) is
  an argument of the handler. Requests are handled one after the other: the library's
  \<^verbatim>\<open>inc\<close> and \<^verbatim>\<open>set\<close> each run under the metric's lock.
\<close>

subsection \<open>Process state\<close>

text \<open>
  The two counters hold the number of increments (the library stores the number as a
  Python float, exact for every count below \<open>2^53\<close>). The labelled counter
  \<^verbatim>\<open>REQUEST_COUNT_PER_VERSION\<close> is the library's dictionary from label value to child
  counter, kept in insertion order. A gauge holds the float it was last set to.
\<close>

record app =
  REQUEST_COUNT :: nat
  REQUEST_COUNT_PER_VERSION :: "(string \<times> nat) list"
  CPU_USAGE :: real
  MEMORY_USAGE :: real
  UPTIME :: real
  THREAD_COUNT :: real
  DISK_USAGE :: real
  START_TIME :: real

text \<open>
  The module body: every metric is created at zero, the labelled counter without
  children, and \<^verbatim>\<open>START_TIME = time.time()\<close>.
\<close>

definition startup :: "real \<Rightarrow> app" where
  "startup now =
     \<lparr>REQUEST_COUNT = 0, REQUEST_COUNT_PER_VERSION = [],
      CPU_USAGE = 0, MEMORY_USAGE = 0, UPTIME = 0, THREAD_COUNT = 0, DISK_USAGE = 0,
      START_TIME = now\<rparr>"

subsection \<open>What a request reads from its host\<close>

datatype exception = Raised string

text \<open>
  \<^verbatim>\<open>psutil\<close> reports a percentage as a float between 0 and 100
  (\<^verbatim>\<open>cpu_percent()\<close>, \<^verbatim>\<open>virtual_memory().percent\<close>, \<^verbatim>\<open>disk_usage("/").percent\<close>).
\<close>

typedef percent = "{x::real. 0 \<le> x \<and> x \<le> 100}"
  morphisms percent_value Abs_percent
  by (rule exI [of _ 0]) simp

setup_lifting type_definition_percent

text \<open>The percentage nearest to a float, to write percentages down.\<close>

lift_definition percent_of :: "real \<Rightarrow> percent" is "\<lambda>x. min 100 (max 0 x)"
  by simp

text \<open>
  \<open>environ\<close> is \<^verbatim>\<open>os.environ\<close> at the time of the request (after the
  \<^verbatim>\<open>load_dotenv()\<close> of the module body). Each of the five calls that \<^verbatim>\<open>metrics\<close>
  samples either returns its value or raises. \<^verbatim>\<open>threading.active_count()\<close> counts the
  main thread, which lives as long as the process, together with every other live
  thread: \<open>other_threads\<close> is the number of the latter.
\<close>

record host =
  environ :: "string \<rightharpoonup> string"
  gethostname :: string
  psutil_cpu :: "exception + percent"
  psutil_memory :: "exception + percent"
  time_time :: "exception + real"
  other_threads :: "exception + nat"
  psutil_disk :: "exception + percent"

text \<open>What the calls of the source return: floats, and the number of threads.\<close>

definition cpu_percent :: "host \<Rightarrow> exception + real" where
  "cpu_percent h = (case psutil_cpu h of Inl e \<Rightarrow> Inl e | Inr p \<Rightarrow> Inr (percent_value p))"

definition virtual_memory_percent :: "host \<Rightarrow> exception + real" where
  "virtual_memory_percent h =
     (case psutil_memory h of Inl e \<Rightarrow> Inl e | Inr p \<Rightarrow> Inr (percent_value p))"

definition active_count :: "host \<Rightarrow> exception + nat" where
  "active_count h = (case other_threads h of Inl e \<Rightarrow> Inl e | Inr n \<Rightarrow> Inr (Suc n))"

definition disk_usage_percent :: "host \<Rightarrow> exception + real" where
  "disk_usage_percent h =
     (case psutil_disk h of Inl e \<Rightarrow> Inl e | Inr p \<Rightarrow> Inr (percent_value p))"

subsection \<open>Strings that cannot be encoded\<close>

text \<open>
  \<^verbatim>\<open>os.environ\<close> and \<^verbatim>\<open>socket.gethostname()\<close> decode the bytes of the operating
  system with the file-system encoding, UTF-8, and the error handler
  \<^verbatim>\<open>surrogateescape\<close>: every byte sequence becomes a \<^verbatim>\<open>str\<close>, a byte that is not
  part of valid UTF-8 becoming a lone surrogate. A \<^verbatim>\<open>str\<close> of the environment or of
  the host name is represented here by the bytes it was decoded from. Encoding it as
  UTF-8, as the JSON body and the metrics exposition are, raises
  \<^verbatim>\<open>UnicodeEncodeError\<close> when it holds a lone surrogate: exactly when its bytes are
  not valid UTF-8. \<open>utf8\<close> is the validity of a byte sequence as UTF-8 (no overlong
  forms, no encoded surrogates, nothing above U+10FFFF).
\<close>

definition continuation :: "char \<Rightarrow> bool" where
  "continuation c = (0x80 \<le> (of_char c :: nat) \<and> (of_char c :: nat) \<le> 0xBF)"

definition second_of_three :: "nat \<Rightarrow> char \<Rightarrow> bool" where
  "second_of_three b c =
     (if b = 0xE0 then 0xA0 \<le> (of_char c :: nat) \<and> (of_char c :: nat) \<le> 0xBF
      else if b = 0xED then 0x80 \<le> (of_char c :: nat) \<and> (of_char c :: nat) \<le> 0x9F
      else continuation c)"

definition second_of_four :: "nat \<Rightarrow> char \<Rightarrow> bool" where
  "second_of_four b c =
     (if b = 0xF0 then 0x90 \<le> (of_char c :: nat) \<and> (of_char c :: nat) \<le> 0xBF
      else if b = 0xF4 then 0x80 \<le> (of_char c :: nat) \<and> (of_char c :: nat) \<le> 0x8F
      else continuation c)"

fun utf8 :: "string \<Rightarrow> bool" where
  "utf8 [] = True"
| "utf8 (c # cs) =
     (let b = (of_char c :: nat) in
      if b \<le> 0x7F then utf8 cs
      else if 0xC2 \<le> b \<and> b \<le> 0xDF then
        (case cs of c1 # r \<Rightarrow> continuation c1 \<and> utf8 r | _ \<Rightarrow> False)
      else if 0xE0 \<le> b \<and> b \<le> 0xEF then
        (case cs of c1 # c2 # r \<Rightarrow> second_of_three b c1 \<and> continuation c2 \<and> utf8 r
                  | _ \<Rightarrow> False)
      else if 0xF0 \<le> b \<and> b \<le> 0xF4 then
        (case cs of c1 # c2 # c3 # r \<Rightarrow>
                      second_of_four b c1 \<and> continuation c2 \<and> continuation c3 \<and> utf8 r
                  | _ \<Rightarrow> False)
      else False)"

text \<open>\<^verbatim>\<open>os.getenv(key, default)\<close>\<close>

definition getenv :: "(string \<rightharpoonup> string) \<Rightarrow> string \<Rightarrow> string \<Rightarrow> string" where
  "getenv env key dflt = (case env key of None \<Rightarrow> dflt | Some v \<Rightarrow> v)"

subsection \<open>Responses\<close>

datatype content = Empty | Text string | JSON "(string \<times> string) list"

record response =
  status_code :: nat
  media_type :: "string option"
  location :: "string option"
  content :: content

text \<open>
  The response classes of the framework, as the source calls them.
  \<^verbatim>\<open>Response(content, media_type=...)\<close> has status 200 unless told otherwise.
  \<^verbatim>\<open>RedirectResponse(url, status_code=307)\<close>: the keyword \<^verbatim>\<open>status_code\<close> defaults to
  307 in Starlette, whose class FastAPI re-exports; the body is empty and the
  \<^verbatim>\<open>location\<close> header is the url. A dictionary returned by a path operation is sent
  as JSON with status 200: the framework builds a \<^verbatim>\<open>JSONResponse\<close> of it after the
  function has returned, and building it encodes the body as UTF-8, which raises
  \<^verbatim>\<open>UnicodeEncodeError\<close> for a key or a value that cannot be encoded.
\<close>

definition Response :: "string \<Rightarrow> string \<Rightarrow> response" where
  "Response body mt =
     \<lparr>status_code = 200, media_type = Some mt, location = None, content = Text body\<rparr>"

definition RedirectResponse :: "string \<Rightarrow> nat option \<Rightarrow> response" where
  "RedirectResponse url code =
     \<lparr>status_code = (case code of None \<Rightarrow> 307 | Some c \<Rightarrow> c),
      media_type = None, location = Some url, content = Empty\<rparr>"

definition JSONResponse :: "(string \<times> string) list \<Rightarrow> exception + response" where
  "JSONResponse d =
     (if list_all (\<lambda>(k, v). utf8 k \<and> utf8 v) d
      then Inr \<lparr>status_code = 200, media_type = Some ''application/json'', location = None,
                content = JSON d\<rparr>
      else Inl (Raised ''UnicodeEncodeError''))"

subsection \<open>Counters\<close>

text \<open>
  \<^verbatim>\<open>Counter.inc()\<close> adds one. \<^verbatim>\<open>labels(version=v)\<close> returns the child of \<open>v\<close>,
  creating it at zero at the end of the dictionary when \<open>v\<close> has no child yet;
  \<open>labels_inc\<close> is \<^verbatim>\<open>labels(version=v).inc()\<close>.
\<close>

definition Counter_inc :: "nat \<Rightarrow> nat" where
  "Counter_inc c = c + 1"

definition labels :: "string \<Rightarrow> (string \<times> nat) list \<Rightarrow> (string \<times> nat) list" where
  "labels v children =
     (case map_of children v of None \<Rightarrow> children @ [(v, 0)] | Some c \<Rightarrow> children)"

definition child_value :: "(string \<times> nat) list \<Rightarrow> string \<Rightarrow> nat" where
  "child_value children v = (case map_of children v of None \<Rightarrow> 0 | Some c \<Rightarrow> c)"

definition labels_inc :: "string \<Rightarrow> (string \<times> nat) list \<Rightarrow> (string \<times> nat) list" where
  "labels_inc v children =
     (let children' = labels v children
      in AList.update v (Counter_inc (child_value children' v)) children')"

subsection \<open>The handlers of \<^verbatim>\<open>/\<close> and \<^verbatim>\<open>/get_info\<close>\<close>

text \<open>
  \<^verbatim>\<open>root\<close> (named \<open>root_handler\<close> here, \<open>root\<close> being the n-th root of
  the reals in HOL) touches no metric. \<open>get_info\<close> is the path operation: the function
  of the source, which increments the two counters and returns the dictionary, and
  then the framework's response for the dictionary. When the response cannot be
  built, the counters have been incremented all the same.
\<close>

definition root_handler :: "app \<Rightarrow> (exception + response) \<times> app" where
  "root_handler s = (Inr (RedirectResponse ''/get_info'' None), s)"

definition get_info :: "host \<Rightarrow> app \<Rightarrow> (exception + response) \<times> app" where
  "get_info h s =
     (let app_title = getenv (environ h) ''APP_TITLE'' ''My FastAPI App'';
          app_version = getenv (environ h) ''APP_VERSION'' ''1.0'';
          s1 = s\<lparr>REQUEST_COUNT := Counter_inc (REQUEST_COUNT s)\<rparr>;
          s2 = s1\<lparr>REQUEST_COUNT_PER_VERSION :=
                    labels_inc app_version (REQUEST_COUNT_PER_VERSION s1)\<rparr>
      in (JSONResponse
            [(''APP_VERSION'', app_version),
             (''APP_TITLE'', app_title),
             (''MESSAGE'', ''Hello from '' @ gethostname h)],
          s2))"

subsection \<open>The text exposition of the metrics\<close>

text \<open>
  \<^verbatim>\<open>generate_latest()\<close> and \<^verbatim>\<open>CONTENT_TYPE_LATEST\<close> belong to the library
  \<^verbatim>\<open>prometheus_client\<close>. The model follows the library's text format 0.0.4 for the
  seven metrics that \<^verbatim>\<open>main.py\<close> registers, in the order of their registration: per
  metric a \<^verbatim>\<open># HELP\<close> line, a \<^verbatim>\<open># TYPE\<close> line and one line per sample.
  The constructor of a counter drops a \<^verbatim>\<open>_total\<close> at the end of the name it is given,
  and the exposition appends \<^verbatim>\<open>_total\<close> to the name of every counter.
  The rendering of a float (\<^verbatim>\<open>floatToGoString\<close>, which writes ASCII) is the
  parameter \<open>fmt\<close>. The lines are joined and encoded as UTF-8, which raises
  \<^verbatim>\<open>UnicodeEncodeError\<close> when a label value cannot be encoded; the names and the
  documentation strings are ASCII.
  The library's body holds more lines, which depend on no state of this program and
  are not modelled: a \<^verbatim>\<open>_created\<close> time stamp per counter, and the metrics of the
  library's own process, platform and garbage-collector collectors.
\<close>

datatype metric_type = counter | gauge

record metric =
  name :: string
  documentation :: string
  type :: metric_type
  samples :: "(string \<times> (string \<times> string) list \<times> real) list"

definition build_full_name :: "metric_type \<Rightarrow> string \<Rightarrow> string" where
  "build_full_name t n =
     (if t = counter \<and> drop (length n - 6) n = ''_total'' then take (length n - 6) n else n)"

definition Counter :: "string \<Rightarrow> string \<Rightarrow> ((string \<times> string) list \<times> nat) list \<Rightarrow> metric" where
  "Counter n doc children =
     \<lparr>name = build_full_name counter n, documentation = doc, type = counter,
      samples = map (\<lambda>(ls, c). (build_full_name counter n @ ''_total'', ls, real c)) children\<rparr>"

definition Gauge :: "string \<Rightarrow> string \<Rightarrow> real \<Rightarrow> metric" where
  "Gauge n doc v =
     \<lparr>name = build_full_name gauge n, documentation = doc, type = gauge,
      samples = [(build_full_name gauge n, [], v)]\<rparr>"

text \<open>The registry: the seven metrics of the module body, with their current samples.\<close>

definition collect :: "app \<Rightarrow> metric list" where
  "collect s =
     [Counter ''get_info_requests_total'' ''Total number of GET /get_info requests''
        [([], REQUEST_COUNT s)],
      Counter ''get_info_requests_total_by_version'' ''GET /get_info requests by app version''
        (map (\<lambda>(v, c). ([(''version'', v)], c)) (REQUEST_COUNT_PER_VERSION s)),
      Gauge ''cpu_usage_percent'' ''CPU usage percentage'' (CPU_USAGE s),
      Gauge ''memory_usage_percent'' ''Memory usage percentage'' (MEMORY_USAGE s),
      Gauge ''uptime_seconds'' ''App uptime in seconds'' (UPTIME s),
      Gauge ''thread_count'' ''Number of active threads'' (THREAD_COUNT s),
      Gauge ''disk_usage_percent'' ''Disk usage percentage'' (DISK_USAGE s)]"

definition newline :: string where
  "newline = [CHR 0x0A]"

text \<open>
  A label value is written with backslash, line feed and double quote escaped; a
  documentation string with backslash and line feed escaped.
\<close>

definition escape_char :: "bool \<Rightarrow> char \<Rightarrow> string" where
  "escape_char quotes c =
     (if c = CHR 0x5C then [CHR 0x5C, CHR 0x5C]
      else if c = CHR 0x0A then [CHR 0x5C, CHR ''n'']
      else if quotes \<and> c = CHR 0x22 then [CHR 0x5C, CHR 0x22]
      else [c])"

definition escape :: "bool \<Rightarrow> string \<Rightarrow> string" where
  "escape quotes v = concat (map (escape_char quotes) v)"

fun join :: "string \<Rightarrow> string list \<Rightarrow> string" where
  "join sep [] = []"
| "join sep [x] = x"
| "join sep (x # y # ys) = x @ sep @ join sep (y # ys)"

text \<open>
  The library sorts the labels of a sample by name; a sample of this program has at
  most one label.
\<close>

definition labelstr :: "(string \<times> string) list \<Rightarrow> string" where
  "labelstr ls =
     (if ls = [] then []
      else ''{'' @ join '','' (map (\<lambda>(k, v). k @ ''='' @ [CHR 0x22] @ escape True v @ [CHR 0x22]) ls)
           @ ''}'')"

definition sample_line :: "(real \<Rightarrow> string) \<Rightarrow> string \<times> (string \<times> string) list \<times> real \<Rightarrow> string" where
  "sample_line fmt smp =
     (case smp of (n, ls, v) \<Rightarrow> n @ labelstr ls @ '' '' @ fmt v @ newline)"

definition type_name :: "metric_type \<Rightarrow> string" where
  "type_name t = (case t of counter \<Rightarrow> ''counter'' | gauge \<Rightarrow> ''gauge'')"

definition render :: "(real \<Rightarrow> string) \<Rightarrow> metric \<Rightarrow> string" where
  "render fmt m =
     (let mname = (if type m = counter then name m @ ''_total'' else name m)
      in ''# HELP '' @ mname @ '' '' @ escape False (documentation m) @ newline
         @ ''# TYPE '' @ mname @ '' '' @ type_name (type m) @ newline
         @ concat (map (sample_line fmt) (samples m)))"

definition encodable :: "metric \<Rightarrow> bool" where
  "encodable m = list_all (\<lambda>(n, ls, v). list_all (\<lambda>(k, lv). utf8 lv) ls) (samples m)"

text \<open>The joined lines, and their encoding.\<close>

definition exposition :: "(real \<Rightarrow> string) \<Rightarrow> app \<Rightarrow> string" where
  "exposition fmt s = concat (map (render fmt) (collect s))"

definition generate_latest :: "(real \<Rightarrow> string) \<Rightarrow> app \<Rightarrow> exception + string" where
  "generate_latest fmt s =
     (if list_all encodable (collect s) then Inr (exposition fmt s)
      else Inl (Raised ''UnicodeEncodeError''))"

text \<open>
  Modelled from the spec: the constant \<^verbatim>\<open>CONTENT_TYPE_LATEST\<close> of
  \<^verbatim>\<open>prometheus_client\<close>, which the source imports and which is not part of it. The
  spec gives the content type of \<^verbatim>\<open>/metrics\<close> as \<^verbatim>\<open>text/plain; version=0.0.4\<close> (or
  equivalent); the library's constant for that format also names the character set.
\<close>

definition CONTENT_TYPE_LATEST :: string where
  "CONTENT_TYPE_LATEST = ''text/plain; version=0.0.4; charset=utf-8''"

subsection \<open>The handler of \<^verbatim>\<open>/metrics\<close>\<close>

text \<open>
  Five statements, each sampling one statistic and then setting one gauge
  (\<^verbatim>\<open>Gauge.set\<close> stores \<^verbatim>\<open>float(value)\<close>), and then the exposition. A call that
  raises ends the handler with that exception; the gauges set by the statements
  before it stay set.
\<close>

definition metrics :: "(real \<Rightarrow> string) \<Rightarrow> host \<Rightarrow> app \<Rightarrow> (exception + response) \<times> app" where
  "metrics fmt h s =
     (case cpu_percent h of Inl e \<Rightarrow> (Inl e, s) | Inr cpu \<Rightarrow>
       (let s1 = s\<lparr>CPU_USAGE := cpu\<rparr> in
        case virtual_memory_percent h of Inl e \<Rightarrow> (Inl e, s1) | Inr mem \<Rightarrow>
       (let s2 = s1\<lparr>MEMORY_USAGE := mem\<rparr> in
        case time_time h of Inl e \<Rightarrow> (Inl e, s2) | Inr now \<Rightarrow>
       (let s3 = s2\<lparr>UPTIME := now - START_TIME s2\<rparr> in
        case active_count h of Inl e \<Rightarrow> (Inl e, s3) | Inr n \<Rightarrow>
       (let s4 = s3\<lparr>THREAD_COUNT := real n\<rparr> in
        case disk_usage_percent h of Inl e \<Rightarrow> (Inl e, s4) | Inr disk \<Rightarrow>
       (let s5 = s4\<lparr>DISK_USAGE := disk\<rparr> in
        case generate_latest fmt s5 of Inl e \<Rightarrow> (Inl e, s5) | Inr text \<Rightarrow>
        (Inr (Response text CONTENT_TYPE_LATEST), s5)))))))"

subsection \<open>Serving requests\<close>

text \<open>
  The three routes of the application. An exception that leaves a handler is answered
  by the framework with status 500 and the plain text \<^verbatim>\<open>Internal Server Error\<close>;
  nothing the handler computed is sent.
\<close>

datatype request = GET_root | GET_get_info | GET_metrics

definition internal_server_error :: response where
  "internal_server_error =
     \<lparr>status_code = 500, media_type = Some ''text/plain; charset=utf-8'', location = None,
      content = Text ''Internal Server Error''\<rparr>"

definition handler :: "(real \<Rightarrow> string) \<Rightarrow> host \<Rightarrow> request \<Rightarrow> app \<Rightarrow> (exception + response) \<times> app" where
  "handler fmt h r s =
     (case r of GET_root \<Rightarrow> root_handler s
              | GET_get_info \<Rightarrow> get_info h s
              | GET_metrics \<Rightarrow> metrics fmt h s)"

definition serve :: "(real \<Rightarrow> string) \<Rightarrow> host \<Rightarrow> request \<Rightarrow> app \<Rightarrow> response \<times> app" where
  "serve fmt h r s =
     (case handler fmt h r s of
        (Inl e, s') \<Rightarrow> (internal_server_error, s')
      | (Inr resp, s') \<Rightarrow> (resp, s'))"

text \<open>A run of the process: the requests in the order they are served, each with its host.\<close>

fun run :: "(real \<Rightarrow> string) \<Rightarrow> (host \<times> request) list \<Rightarrow> app \<Rightarrow> app" where
  "run fmt [] s = s"
| "run fmt ((h, r) # rs) s = run fmt rs (snd (serve fmt h r s))"

text \<open>The text a response carries.\<close>

definition body :: "response \<Rightarrow> string" where
  "body resp = (case content resp of Text b \<Rightarrow> b | _ \<Rightarrow> [])"

subsection \<open>Inputs for the examples\<close>

text \<open>
  A rendering of floats and a host for the concrete examples below; the theorems
  hold for every rendering and every host. The rendering writes the counts that
  the examples reach as the library does, and a question mark for any other float.
\<close>

definition example_fmt :: "real \<Rightarrow> string" where
  "example_fmt v =
     (if v = 0 then ''0.0'' else if v = 1 then ''1.0'' else if v = 2 then ''2.0''
      else if v = 3 then ''3.0'' else ''?'')"

definition example_host :: host where
  "example_host =
     \<lparr>environ = Map.empty, gethostname = ''pod-1'',
      psutil_cpu = Inr (percent_of 12.5), psutil_memory = Inr (percent_of 40),
      time_time = Inr 110, other_threads = Inr 2, psutil_disk = Inr (percent_of 55)\<rparr>"

section \<open>Properties\<close>

subsection \<open>Counters: what each handler does to them\<close>

lemma map_of_labels_inc:
  "map_of (labels_inc v cs) = (map_of cs)(v \<mapsto> child_value cs v + 1)"
  by (auto simp: labels_inc_def labels_def child_value_def Counter_inc_def Let_def
        update_conv' fun_eq_iff map_add_def split: option.splits)

lemma child_value_labels_inc:
  "child_value (labels_inc v cs) w = (if w = v then child_value cs v + 1 else child_value cs w)"
  by (simp add: child_value_def [of "labels_inc v cs"] map_of_labels_inc)
     (simp add: child_value_def)

lemma keys_labels_inc: "fst ` set (labels_inc v cs) = insert v (fst ` set cs)"
proof -
  have "dom (map_of (labels_inc v cs)) = insert v (dom (map_of cs))"
    by (simp add: map_of_labels_inc)
  then show ?thesis by (simp add: dom_map_of_conv_image_fst)
qed

lemma distinct_labels_inc:
  "distinct (map fst cs) \<Longrightarrow> distinct (map fst (labels_inc v cs))"
  by (auto simp: labels_inc_def labels_def Let_def distinct_update map_of_eq_None_iff
        split: option.splits)

lemma get_info_state:
  "snd (get_info h s) =
     s\<lparr>REQUEST_COUNT := REQUEST_COUNT s + 1,
       REQUEST_COUNT_PER_VERSION :=
         labels_inc (getenv (environ h) ''APP_VERSION'' ''1.0'') (REQUEST_COUNT_PER_VERSION s)\<rparr>"
  by (simp add: get_info_def Let_def Counter_inc_def)

lemma metrics_counters:
  "REQUEST_COUNT (snd (metrics fmt h s)) = REQUEST_COUNT s"
  "REQUEST_COUNT_PER_VERSION (snd (metrics fmt h s)) = REQUEST_COUNT_PER_VERSION s"
  by (simp_all add: metrics_def Let_def split: sum.splits)

lemma metrics_START_TIME: "START_TIME (snd (metrics fmt h s)) = START_TIME s"
  by (simp add: metrics_def Let_def split: sum.splits)

lemma serve_state: "snd (serve fmt h r s) = snd (handler fmt h r s)"
  by (simp add: serve_def split: prod.splits sum.splits)

lemma serve_response:
  "fst (serve fmt h r s) =
     (case fst (handler fmt h r s) of Inl e \<Rightarrow> internal_server_error | Inr resp \<Rightarrow> resp)"
  by (simp add: serve_def split: prod.splits sum.splits)

lemma handler_REQUEST_COUNT:
  "REQUEST_COUNT (snd (handler fmt h r s)) = REQUEST_COUNT s + (if r = GET_get_info then 1 else 0)"
  by (cases r) (simp_all add: handler_def root_handler_def get_info_state metrics_counters)

lemma handler_child_value:
  "child_value (REQUEST_COUNT_PER_VERSION (snd (handler fmt h r s))) v =
     child_value (REQUEST_COUNT_PER_VERSION s) v +
       (if r = GET_get_info \<and> getenv (environ h) ''APP_VERSION'' ''1.0'' = v then 1 else 0)"
  by (cases r)
     (simp_all add: handler_def root_handler_def get_info_state metrics_counters
        child_value_labels_inc)

lemma run_REQUEST_COUNT:
  "REQUEST_COUNT (run fmt rs s) =
     REQUEST_COUNT s + length (filter (\<lambda>(h, r). r = GET_get_info) rs)"
  by (induction rs arbitrary: s) (auto simp: serve_state handler_REQUEST_COUNT)

lemma run_child_value:
  "child_value (REQUEST_COUNT_PER_VERSION (run fmt rs s)) v =
     child_value (REQUEST_COUNT_PER_VERSION s) v +
       length (filter (\<lambda>(h, r). r = GET_get_info \<and>
                 getenv (environ h) ''APP_VERSION'' ''1.0'' = v) rs)"
  by (induction rs arbitrary: s)
     (auto simp: serve_state handler_child_value split: if_splits)

subsection \<open>The exposition lists every metric and every sample\<close>

lemma sublist_concat_member:
  "x \<in> set xs \<Longrightarrow> sublist y x \<Longrightarrow> sublist y (concat xs)"
proof -
  assume "x \<in> set xs" and y: "sublist y x"
  then obtain ps ss where "xs = ps @ x # ss" by (auto simp: in_set_conv_decomp)
  then have "concat xs = concat ps @ x @ concat ss" by simp
  then have "sublist x (concat xs)" by (simp only: sublist_appendI)
  with y show ?thesis by (rule sublist_order.order.trans)
qed

lemma build_full_name_total: "sublist n (build_full_name t n @ ''_total'')"
proof (cases "t = counter \<and> drop (length n - 6) n = ''_total''")
  case True
  then have "build_full_name t n = take (length n - 6) n" and "''_total'' = drop (length n - 6) n"
    by (simp_all add: build_full_name_def)
  then have "build_full_name t n @ ''_total'' = take (length n - 6) n @ drop (length n - 6) n"
    by (simp only:)
  then show ?thesis by (simp only: append_take_drop_id sublist_order.order.refl)
next
  case False
  then have "build_full_name t n = n"
    by (auto simp: build_full_name_def)
  then show ?thesis by (simp only: sublist_append_rightI)
qed

lemma render_Counter_name: "sublist n (render fmt (Counter n doc cs))"
proof -
  obtain rest where "render fmt (Counter n doc cs) = ''# HELP '' @ (build_full_name counter n @ ''_total'') @ rest"
    by (simp add: render_def Counter_def Let_def)
  then have "sublist (build_full_name counter n @ ''_total'') (render fmt (Counter n doc cs))"
    by (simp only: sublist_appendI)
  with build_full_name_total [of n counter] show ?thesis
    by (rule sublist_order.order.trans)
qed

lemma render_Gauge_name: "sublist n (render fmt (Gauge n doc v))"
proof -
  obtain rest where "render fmt (Gauge n doc v) = ''# HELP '' @ n @ rest"
    by (simp add: render_def Gauge_def Let_def build_full_name_def)
  then show ?thesis by (simp only: sublist_appendI)
qed

lemma render_sample:
  assumes "smp \<in> set (samples m)"
  shows "sublist (sample_line fmt smp) (render fmt m)"
proof -
  have "sample_line fmt smp \<in> set (map (sample_line fmt) (samples m))"
    using assms by simp
  then have "sublist (sample_line fmt smp) (concat (map (sample_line fmt) (samples m)))"
    by (rule sublist_concat_member) (rule sublist_order.order.refl)
  moreover obtain pre where "render fmt m = pre @ concat (map (sample_line fmt) (samples m))"
    by (simp add: render_def Let_def)
  ultimately show ?thesis
    by (metis sublist_append_leftI sublist_order.order.trans)
qed

lemma exposition_metric:
  "m \<in> set (collect s) \<Longrightarrow> sublist x (render fmt m) \<Longrightarrow> sublist x (exposition fmt s)"
  unfolding exposition_def
  by (rule sublist_concat_member [of "render fmt m"]) auto

lemma sample_line_gauge:
  "sample_line fmt (n, [], v) = n @ '' '' @ fmt v @ [CHR 0x0A]"
  by (simp add: sample_line_def labelstr_def newline_def)

lemma sample_line_version:
  "sample_line fmt (n, [(''version'', v)], x) =
     n @ ''{version='' @ [CHR 0x22] @ escape True v @ [CHR 0x22] @ ''} '' @ fmt x @ [CHR 0x0A]"
  by (simp add: sample_line_def labelstr_def newline_def)

lemma render_Gauge_value:
  "sublist (n @ '' '' @ fmt v @ [CHR 0x0A]) (render fmt (Gauge n doc v))"
proof -
  have "(n, [], v) \<in> set (samples (Gauge n doc v))"
    by (simp add: Gauge_def build_full_name_def)
  from render_sample [OF this, of fmt] show ?thesis
    by (simp only: sample_line_gauge)
qed

lemma exposition_gauges:
  "sublist (''cpu_usage_percent'' @ '' '' @ fmt (CPU_USAGE s) @ [CHR 0x0A]) (exposition fmt s)"
  "sublist (''memory_usage_percent'' @ '' '' @ fmt (MEMORY_USAGE s) @ [CHR 0x0A]) (exposition fmt s)"
  "sublist (''uptime_seconds'' @ '' '' @ fmt (UPTIME s) @ [CHR 0x0A]) (exposition fmt s)"
  "sublist (''thread_count'' @ '' '' @ fmt (THREAD_COUNT s) @ [CHR 0x0A]) (exposition fmt s)"
  "sublist (''disk_usage_percent'' @ '' '' @ fmt (DISK_USAGE s) @ [CHR 0x0A]) (exposition fmt s)"
proof -
  show "sublist (''cpu_usage_percent'' @ '' '' @ fmt (CPU_USAGE s) @ [CHR 0x0A]) (exposition fmt s)"
    by (rule exposition_metric [OF _ render_Gauge_value [of _ _ _ "''CPU usage percentage''"]])
       (simp add: collect_def)
  show "sublist (''memory_usage_percent'' @ '' '' @ fmt (MEMORY_USAGE s) @ [CHR 0x0A]) (exposition fmt s)"
    by (rule exposition_metric [OF _ render_Gauge_value [of _ _ _ "''Memory usage percentage''"]])
       (simp add: collect_def)
  show "sublist (''uptime_seconds'' @ '' '' @ fmt (UPTIME s) @ [CHR 0x0A]) (exposition fmt s)"
    by (rule exposition_metric [OF _ render_Gauge_value [of _ _ _ "''App uptime in seconds''"]])
       (simp add: collect_def)
  show "sublist (''thread_count'' @ '' '' @ fmt (THREAD_COUNT s) @ [CHR 0x0A]) (exposition fmt s)"
    by (rule exposition_metric [OF _ render_Gauge_value [of _ _ _ "''Number of active threads''"]])
       (simp add: collect_def)
  show "sublist (''disk_usage_percent'' @ '' '' @ fmt (DISK_USAGE s) @ [CHR 0x0A]) (exposition fmt s)"
    by (rule exposition_metric [OF _ render_Gauge_value [of _ _ _ "''Disk usage percentage''"]])
       (simp add: collect_def)
qed

lemma exposition_names:
  "sublist ''get_info_requests_total'' (exposition fmt s)"
  "sublist ''get_info_requests_total_by_version'' (exposition fmt s)"
  "sublist ''cpu_usage_percent'' (exposition fmt s)"
  "sublist ''memory_usage_percent'' (exposition fmt s)"
  "sublist ''uptime_seconds'' (exposition fmt s)"
  "sublist ''thread_count'' (exposition fmt s)"
  "sublist ''disk_usage_percent'' (exposition fmt s)"
proof -
  show "sublist ''get_info_requests_total'' (exposition fmt s)"
    by (rule exposition_metric [OF _ render_Counter_name
          [of _ _ "''Total number of GET /get_info requests''" "[([], REQUEST_COUNT s)]"]])
       (simp add: collect_def)
  show "sublist ''get_info_requests_total_by_version'' (exposition fmt s)"
    by (rule exposition_metric [OF _ render_Counter_name
          [of _ _ "''GET /get_info requests by app version''"
             "map (\<lambda>(v, c). ([(''version'', v)], c)) (REQUEST_COUNT_PER_VERSION s)"]])
       (simp add: collect_def)
  show "sublist ''cpu_usage_percent'' (exposition fmt s)"
    by (rule exposition_metric [OF _ render_Gauge_name
          [of _ _ "''CPU usage percentage''" "CPU_USAGE s"]])
       (simp add: collect_def)
  show "sublist ''memory_usage_percent'' (exposition fmt s)"
    by (rule exposition_metric [OF _ render_Gauge_name
          [of _ _ "''Memory usage percentage''" "MEMORY_USAGE s"]])
       (simp add: collect_def)
  show "sublist ''uptime_seconds'' (exposition fmt s)"
    by (rule exposition_metric [OF _ render_Gauge_name
          [of _ _ "''App uptime in seconds''" "UPTIME s"]])
       (simp add: collect_def)
  show "sublist ''thread_count'' (exposition fmt s)"
    by (rule exposition_metric [OF _ render_Gauge_name
          [of _ _ "''Number of active threads''" "THREAD_COUNT s"]])
       (simp add: collect_def)
  show "sublist ''disk_usage_percent'' (exposition fmt s)"
    by (rule exposition_metric [OF _ render_Gauge_name
          [of _ _ "''Disk usage percentage''" "DISK_USAGE s"]])
       (simp add: collect_def)
qed

lemma exposition_version_series:
  assumes "(v, c) \<in> set (REQUEST_COUNT_PER_VERSION s)"
  shows "sublist (sample_line fmt (''get_info_requests_total_by_version_total'', [(''version'', v)], real c))
           (exposition fmt s)"
proof -
  let ?m = "Counter ''get_info_requests_total_by_version'' ''GET /get_info requests by app version''
        (map (\<lambda>(v, c). ([(''version'', v)], c)) (REQUEST_COUNT_PER_VERSION s))"
  have "build_full_name counter ''get_info_requests_total_by_version'' = ''get_info_requests_total_by_version''"
    by (simp add: build_full_name_def)
  then have "(''get_info_requests_total_by_version_total'', [(''version'', v)], real c) \<in> set (samples ?m)"
    using assms by (force simp: Counter_def)
  then have "sublist (sample_line fmt (''get_info_requests_total_by_version_total'', [(''version'', v)], real c)) (render fmt ?m)"
    by (rule render_sample)
  moreover have "?m \<in> set (collect s)" by (simp add: collect_def)
  ultimately show ?thesis by (rule exposition_metric [rotated])
qed


lemma exposition_version_line:
  assumes "(v, c) \<in> set (REQUEST_COUNT_PER_VERSION s)"
  shows "sublist (''get_info_requests_total_by_version_total{version='' @ [CHR 0x22]
                   @ escape True v @ [CHR 0x22] @ ''} '' @ fmt (real c) @ [CHR 0x0A])
           (exposition fmt s)"
  using exposition_version_series [OF assms, of fmt]
  by (simp only: sample_line_version append.simps)

subsection \<open>Strings that can be encoded\<close>

lemma utf8_ascii_append:
  "\<forall>c \<in> set xs. (of_char c :: nat) \<le> 0x7F \<Longrightarrow> utf8 (xs @ ys) = utf8 ys"
  by (induction xs) simp_all

lemma utf8_defaults: "utf8 ''1.0''" "utf8 ''My FastAPI App''" "utf8 ''pod-1''"
  by simp_all

lemma utf8_message: "utf8 (''Hello from '' @ n) = utf8 n"
  by (rule utf8_ascii_append) simp

lemma get_info_outcome:
  "fst (get_info h s) =
     (if utf8 (getenv (environ h) ''APP_VERSION'' ''1.0'')
         \<and> utf8 (getenv (environ h) ''APP_TITLE'' ''My FastAPI App'') \<and> utf8 (gethostname h)
      then Inr \<lparr>status_code = 200, media_type = Some ''application/json'', location = None,
                content = JSON [(''APP_VERSION'', getenv (environ h) ''APP_VERSION'' ''1.0''),
                                (''APP_TITLE'', getenv (environ h) ''APP_TITLE'' ''My FastAPI App''),
                                (''MESSAGE'', ''Hello from '' @ gethostname h)]\<rparr>
      else Inl (Raised ''UnicodeEncodeError''))"
  by (simp add: get_info_def Let_def JSONResponse_def)

lemma encodable_collect:
  "list_all encodable (collect s) = list_all (\<lambda>(v, c). utf8 v) (REQUEST_COUNT_PER_VERSION s)"
  by (simp add: collect_def encodable_def Counter_def Gauge_def list_all_iff split_beta)

lemma generate_latest_cases:
  "generate_latest fmt s =
     (if list_all (\<lambda>(v, c). utf8 v) (REQUEST_COUNT_PER_VERSION s) then Inr (exposition fmt s)
      else Inl (Raised ''UnicodeEncodeError''))"
  by (simp add: generate_latest_def encodable_collect)

subsection \<open>The outcome of \<^verbatim>\<open>/metrics\<close>\<close>

lemma sampled_ranges:
  "cpu_percent h = Inr x \<Longrightarrow> 0 \<le> x \<and> x \<le> 100"
  "virtual_memory_percent h = Inr x \<Longrightarrow> 0 \<le> x \<and> x \<le> 100"
  "disk_usage_percent h = Inr x \<Longrightarrow> 0 \<le> x \<and> x \<le> 100"
  "active_count h = Inr n \<Longrightarrow> 1 \<le> n"
  using percent_value [of "projr (psutil_cpu h)"] percent_value [of "projr (psutil_memory h)"]
    percent_value [of "projr (psutil_disk h)"]
  by (auto simp: cpu_percent_def virtual_memory_percent_def disk_usage_percent_def
        active_count_def split: sum.splits)

lemma metrics_sampled:
  assumes "cpu_percent h = Inr a" "virtual_memory_percent h = Inr b" "time_time h = Inr c"
    "active_count h = Inr d" "disk_usage_percent h = Inr e"
  shows "metrics fmt h s =
     (case generate_latest fmt
             (s\<lparr>CPU_USAGE := a, MEMORY_USAGE := b, UPTIME := c - START_TIME s,
                THREAD_COUNT := real d, DISK_USAGE := e\<rparr>) of
        Inl x \<Rightarrow> Inl x | Inr text \<Rightarrow> Inr (Response text CONTENT_TYPE_LATEST),
      s\<lparr>CPU_USAGE := a, MEMORY_USAGE := b, UPTIME := c - START_TIME s,
        THREAD_COUNT := real d, DISK_USAGE := e\<rparr>)"
  using assms by (simp add: metrics_def Let_def split: sum.splits)

lemma metrics_success:
  assumes "cpu_percent h = Inr a" "virtual_memory_percent h = Inr b" "time_time h = Inr c"
    "active_count h = Inr d" "disk_usage_percent h = Inr e"
    and "list_all (\<lambda>(v, c). utf8 v) (REQUEST_COUNT_PER_VERSION s)"
  shows "metrics fmt h s =
     (Inr (Response
        (exposition fmt
          (s\<lparr>CPU_USAGE := a, MEMORY_USAGE := b, UPTIME := c - START_TIME s,
             THREAD_COUNT := real d, DISK_USAGE := e\<rparr>))
        CONTENT_TYPE_LATEST),
      s\<lparr>CPU_USAGE := a, MEMORY_USAGE := b, UPTIME := c - START_TIME s,
        THREAD_COUNT := real d, DISK_USAGE := e\<rparr>)"
  using assms(6) by (simp add: metrics_sampled [OF assms(1-5)] generate_latest_cases)

lemma metrics_InrD:
  assumes "metrics fmt h s = (Inr resp, s')"
  shows "\<exists>a b c d e. cpu_percent h = Inr a \<and> virtual_memory_percent h = Inr b
      \<and> time_time h = Inr c \<and> active_count h = Inr d \<and> disk_usage_percent h = Inr e
      \<and> s' = s\<lparr>CPU_USAGE := a, MEMORY_USAGE := b, UPTIME := c - START_TIME s,
                THREAD_COUNT := real d, DISK_USAGE := e\<rparr>
      \<and> list_all (\<lambda>(v, c). utf8 v) (REQUEST_COUNT_PER_VERSION s)
      \<and> resp = Response (exposition fmt s') CONTENT_TYPE_LATEST"
  using assms
  by (auto simp: metrics_def Let_def generate_latest_cases split: sum.splits if_splits)

lemma metrics_success_proj:
  assumes "cpu_percent h = Inr a" "virtual_memory_percent h = Inr b" "time_time h = Inr c"
    "active_count h = Inr d" "disk_usage_percent h = Inr e"
    and "list_all (\<lambda>(v, c). utf8 v) (REQUEST_COUNT_PER_VERSION s)"
  shows "metrics fmt h s = (Inr (projr (fst (metrics fmt h s))), snd (metrics fmt h s))"
  by (simp add: metrics_success [OF assms])

lemma handler_START_TIME: "START_TIME (snd (handler fmt h r s)) = START_TIME s"
  by (cases r) (simp_all add: handler_def root_handler_def get_info_state metrics_START_TIME)

lemma run_START_TIME: "START_TIME (run fmt rs s) = START_TIME s"
  by (induction rs arbitrary: s) (auto simp: serve_state handler_START_TIME)

lemma body_Response: "body (Response b mt) = b"
  by (simp add: body_def Response_def)

lemma example_samples:
  "cpu_percent example_host = Inr 12.5"
  "virtual_memory_percent example_host = Inr 40"
  "time_time example_host = Inr 110"
  "active_count example_host = Inr 3"
  "disk_usage_percent example_host = Inr 55"
  by (simp_all add: example_host_def cpu_percent_def virtual_memory_percent_def
        active_count_def disk_usage_percent_def percent_of.rep_eq)

section \<open>The claims\<close>

subsection \<open>\<^verbatim>\<open>/get_info\<close>\<close>

text \<open>
  Claim C1. In a run of requests in which every \<^verbatim>\<open>GET /get_info\<close> sees the same
  \<^verbatim>\<open>APP_VERSION\<close> value \<open>v\<close> (set, or unset and so \<^verbatim>\<open>1.0\<close>), the counter
  \<^verbatim>\<open>get_info_requests_total\<close> and the child of \<open>v\<close> of
  \<^verbatim>\<open>get_info_requests_total_by_version\<close> each grow by exactly the number of
  \<^verbatim>\<open>GET /get_info\<close> requests of the run, whatever other requests the run holds; and a
  request to another route leaves both counters as they were.
\<close>

theorem get_info_counts_requests:
  assumes "\<forall>(h, r) \<in> set rs. r = GET_get_info \<longrightarrow> getenv (environ h) ''APP_VERSION'' ''1.0'' = v"
  shows "REQUEST_COUNT (run fmt rs s) =
           REQUEST_COUNT s + length (filter (\<lambda>(h, r). r = GET_get_info) rs)
       \<and> child_value (REQUEST_COUNT_PER_VERSION (run fmt rs s)) v =
           child_value (REQUEST_COUNT_PER_VERSION s) v
             + length (filter (\<lambda>(h, r). r = GET_get_info) rs)
       \<and> (r' \<noteq> GET_get_info \<longrightarrow>
             REQUEST_COUNT (snd (serve fmt h' r' s')) = REQUEST_COUNT s'
           \<and> REQUEST_COUNT_PER_VERSION (snd (serve fmt h' r' s')) = REQUEST_COUNT_PER_VERSION s')"
proof -
  have same: "filter (\<lambda>(h, r). r = GET_get_info \<and> getenv (environ h) ''APP_VERSION'' ''1.0'' = v) rs
      = filter (\<lambda>(h, r). r = GET_get_info) rs"
    using assms by (intro filter_cong) auto
  have other: "REQUEST_COUNT (snd (serve fmt h' r' s')) = REQUEST_COUNT s'
      \<and> REQUEST_COUNT_PER_VERSION (snd (serve fmt h' r' s')) = REQUEST_COUNT_PER_VERSION s'"
    if "r' \<noteq> GET_get_info"
    using that
    by (cases r') (simp_all add: serve_state handler_def root_handler_def metrics_counters)
  show ?thesis
    using run_REQUEST_COUNT [of fmt rs s] run_child_value [of fmt rs s v] other
    by (simp only: same) blast
qed

theorem get_info_counts_requests_witness:
  "REQUEST_COUNT (run example_fmt
      [(example_host, GET_get_info), (example_host, GET_metrics),
       (example_host, GET_root), (example_host, GET_get_info)] (startup 100)) = 2
   \<and> child_value (REQUEST_COUNT_PER_VERSION (run example_fmt
      [(example_host, GET_get_info), (example_host, GET_metrics),
       (example_host, GET_root), (example_host, GET_get_info)] (startup 100))) ''1.0'' = 2
   \<and> REQUEST_COUNT (snd (serve example_fmt example_host GET_metrics (startup 100))) = 0"
  using get_info_counts_requests [of "[(example_host, GET_get_info), (example_host, GET_metrics),
       (example_host, GET_root), (example_host, GET_get_info)]" "''1.0''" example_fmt "startup 100"
       GET_metrics example_host "startup 100"]
  by (simp add: example_host_def getenv_def startup_def child_value_def)

text \<open>
  Claim C2 as stated fails. \<^verbatim>\<open>GET /get_info\<close> does not answer 200 to every
  request: when \<^verbatim>\<open>APP_TITLE\<close> holds a byte that is not UTF-8, the JSON body cannot be
  encoded and the answer is the framework's 500.
\<close>

theorem get_info_status_counterexample:
  "status_code (fst (serve example_fmt
      (example_host\<lparr>environ := [''APP_TITLE'' \<mapsto> [CHR 0xFF]]\<rparr>) GET_get_info (startup 100)))
     \<noteq> 200"
  by (simp add: serve_response handler_def get_info_outcome
        example_host_def getenv_def internal_server_error_def)

text \<open>
  Claim C2, amended. Whenever the \<^verbatim>\<open>APP_VERSION\<close> and \<^verbatim>\<open>APP_TITLE\<close> values in
  force (set, or the defaults) and the host name are UTF-8 text,
  \<^verbatim>\<open>GET /get_info\<close> answers 200 with a body of exactly the three keys
  \<^verbatim>\<open>APP_VERSION\<close>, \<^verbatim>\<open>APP_TITLE\<close> and \<^verbatim>\<open>MESSAGE\<close>, each with a string value, the
  last one \<^verbatim>\<open>Hello from\<close> followed by the host name. When one of the three is not
  UTF-8 text, the answer is the framework's 500.
\<close>

theorem get_info_response:
  "(utf8 (getenv (environ h) ''APP_VERSION'' ''1.0'')
      \<and> utf8 (getenv (environ h) ''APP_TITLE'' ''My FastAPI App'') \<and> utf8 (gethostname h) \<longrightarrow>
      status_code (fst (serve fmt h GET_get_info s)) = 200
      \<and> content (fst (serve fmt h GET_get_info s)) =
          JSON [(''APP_VERSION'', getenv (environ h) ''APP_VERSION'' ''1.0''),
                (''APP_TITLE'', getenv (environ h) ''APP_TITLE'' ''My FastAPI App''),
                (''MESSAGE'', ''Hello from '' @ gethostname h)])
   \<and> (\<not> (utf8 (getenv (environ h) ''APP_VERSION'' ''1.0'')
          \<and> utf8 (getenv (environ h) ''APP_TITLE'' ''My FastAPI App'') \<and> utf8 (gethostname h)) \<longrightarrow>
      fst (serve fmt h GET_get_info s) = internal_server_error)"
  by (simp add: serve_response handler_def get_info_outcome)

theorem get_info_response_witness:
  "status_code (fst (serve example_fmt example_host GET_get_info (startup 100))) = 200
   \<and> content (fst (serve example_fmt example_host GET_get_info (startup 100))) =
         JSON [(''APP_VERSION'', ''1.0''), (''APP_TITLE'', ''My FastAPI App''),
               (''MESSAGE'', ''Hello from pod-1'')]
   \<and> content (fst (serve example_fmt
        (example_host\<lparr>environ := [''APP_VERSION'' \<mapsto> ''2.0'', ''APP_TITLE'' \<mapsto> ''Pilot'']\<rparr>)
        GET_get_info (startup 100))) =
         JSON [(''APP_VERSION'', ''2.0''), (''APP_TITLE'', ''Pilot''),
               (''MESSAGE'', ''Hello from pod-1'')]
   \<and> fst (serve example_fmt (example_host\<lparr>gethostname := [CHR 0xC3]\<rparr>) GET_get_info (startup 100))
       = internal_server_error"
  using get_info_response [of example_host example_fmt "startup 100"]
    get_info_response
      [of "example_host\<lparr>environ := [''APP_VERSION'' \<mapsto> ''2.0'', ''APP_TITLE'' \<mapsto> ''Pilot'']\<rparr>"
          example_fmt "startup 100"]
    get_info_response [of "example_host\<lparr>gethostname := [CHR 0xC3]\<rparr>" example_fmt "startup 100"]
  by (simp add: example_host_def getenv_def)

text \<open>
  Claim C3 as stated fails. With \<^verbatim>\<open>APP_VERSION\<close> unset and an \<^verbatim>\<open>APP_TITLE\<close> that
  is not UTF-8, the answer is the framework's 500 and carries no
  \<^verbatim>\<open>APP_VERSION\<close> at all.
\<close>

theorem get_info_defaults_counterexample:
  "environ (example_host\<lparr>environ := [''APP_TITLE'' \<mapsto> [CHR 0xFF]]\<rparr>) ''APP_VERSION'' = None
   \<and> content (fst (serve example_fmt
        (example_host\<lparr>environ := [''APP_TITLE'' \<mapsto> [CHR 0xFF]]\<rparr>) GET_get_info (startup 100)))
       = Text ''Internal Server Error''"
  by (simp add: serve_response handler_def get_info_outcome
        example_host_def getenv_def internal_server_error_def)

text \<open>
  Claim C3, amended. With \<^verbatim>\<open>APP_TITLE\<close> unset the response carries the title
  \<^verbatim>\<open>My FastAPI App\<close>, and with \<^verbatim>\<open>APP_VERSION\<close> unset it carries the version
  \<^verbatim>\<open>1.0\<close>, in each case when the other value and the host name are UTF-8 text, so
  that the response is sent. The lookup itself never fails: with
  \<^verbatim>\<open>APP_VERSION\<close> unset the request is counted for the version \<^verbatim>\<open>1.0\<close> whatever
  the answer is, and the only exception that can end the request is the
  \<^verbatim>\<open>UnicodeEncodeError\<close> of the response.
\<close>

theorem get_info_defaults:
  "(environ h ''APP_TITLE'' = None
      \<and> utf8 (getenv (environ h) ''APP_VERSION'' ''1.0'') \<and> utf8 (gethostname h) \<longrightarrow>
      content (fst (serve fmt h GET_get_info s)) =
         JSON [(''APP_VERSION'', getenv (environ h) ''APP_VERSION'' ''1.0''),
               (''APP_TITLE'', ''My FastAPI App''),
               (''MESSAGE'', ''Hello from '' @ gethostname h)])
   \<and> (environ h ''APP_VERSION'' = None
      \<and> utf8 (getenv (environ h) ''APP_TITLE'' ''My FastAPI App'') \<and> utf8 (gethostname h) \<longrightarrow>
      content (fst (serve fmt h GET_get_info s)) =
         JSON [(''APP_VERSION'', ''1.0''),
               (''APP_TITLE'', getenv (environ h) ''APP_TITLE'' ''My FastAPI App''),
               (''MESSAGE'', ''Hello from '' @ gethostname h)])
   \<and> (environ h ''APP_VERSION'' = None \<longrightarrow>
      child_value (REQUEST_COUNT_PER_VERSION (snd (serve fmt h GET_get_info s))) ''1.0'' =
        child_value (REQUEST_COUNT_PER_VERSION s) ''1.0'' + 1)
   \<and> (\<forall>e. fst (get_info h s) = Inl e \<longrightarrow> e = Raised ''UnicodeEncodeError'')"
proof -
  have title: "getenv (environ h) ''APP_TITLE'' ''My FastAPI App'' = ''My FastAPI App''"
    if "environ h ''APP_TITLE'' = None"
    using that by (simp add: getenv_def)
  have version: "getenv (environ h) ''APP_VERSION'' ''1.0'' = ''1.0''"
    if "environ h ''APP_VERSION'' = None"
    using that by (simp add: getenv_def)
  have counted: "child_value (REQUEST_COUNT_PER_VERSION (snd (serve fmt h GET_get_info s))) ''1.0'' =
        child_value (REQUEST_COUNT_PER_VERSION s) ''1.0'' + 1"
    if "environ h ''APP_VERSION'' = None"
    by (simp add: serve_state handler_def get_info_state version [OF that] child_value_labels_inc)
  have raised: "\<forall>e. fst (get_info h s) = Inl e \<longrightarrow> e = Raised ''UnicodeEncodeError''"
    by (simp add: get_info_outcome)
  show ?thesis
    using title version counted raised
    by (simp add: serve_response handler_def get_info_outcome utf8_defaults)
qed

theorem get_info_defaults_witness:
  "environ example_host ''APP_TITLE'' = None
   \<and> environ example_host ''APP_VERSION'' = None
   \<and> content (fst (serve example_fmt example_host GET_get_info (startup 100))) =
         JSON [(''APP_VERSION'', ''1.0''), (''APP_TITLE'', ''My FastAPI App''),
               (''MESSAGE'', ''Hello from pod-1'')]
   \<and> child_value (REQUEST_COUNT_PER_VERSION
         (snd (serve example_fmt example_host GET_get_info (startup 100)))) ''1.0'' = 1
   \<and> child_value (REQUEST_COUNT_PER_VERSION
         (snd (serve example_fmt (example_host\<lparr>environ := [''APP_TITLE'' \<mapsto> [CHR 0xFF]]\<rparr>)
                 GET_get_info (startup 100)))) ''1.0'' = 1"
  using get_info_defaults [of example_host example_fmt "startup 100"]
    get_info_defaults [of "example_host\<lparr>environ := [''APP_TITLE'' \<mapsto> [CHR 0xFF]]\<rparr>"
      example_fmt "startup 100"]
  by (simp add: example_host_def getenv_def startup_def child_value_def)

subsection \<open>\<^verbatim>\<open>/metrics\<close>\<close>

text \<open>
  Claim C4 as stated fails. \<^verbatim>\<open>GET /metrics\<close> does not answer 200 to every
  request. When \<^verbatim>\<open>psutil.disk_usage\<close> raises, the answer is the framework's 500.
  And after a \<^verbatim>\<open>GET /get_info\<close> that saw an \<^verbatim>\<open>APP_VERSION\<close> that is not UTF-8,
  the exposition cannot be encoded: the answer is the 500 although all five sampling
  calls return.
\<close>

theorem metrics_status_counterexample:
  "status_code (fst (serve example_fmt
      (example_host\<lparr>psutil_disk := Inl (Raised ''OSError'')\<rparr>) GET_metrics
      (startup 100))) \<noteq> 200
   \<and> cpu_percent example_host = Inr 12.5
   \<and> virtual_memory_percent example_host = Inr 40
   \<and> time_time example_host = Inr 110
   \<and> active_count example_host = Inr 3
   \<and> disk_usage_percent example_host = Inr 55
   \<and> status_code (fst (serve example_fmt example_host GET_metrics
        (snd (serve example_fmt (example_host\<lparr>environ := [''APP_VERSION'' \<mapsto> [CHR 0xFF]]\<rparr>)
                GET_get_info (startup 100))))) \<noteq> 200"
proof -
  have 1: "status_code (fst (serve example_fmt
      (example_host\<lparr>psutil_disk := Inl (Raised ''OSError'')\<rparr>) GET_metrics
      (startup 100))) \<noteq> 200"
    by (simp add: serve_response handler_def metrics_def example_host_def
          internal_server_error_def Let_def cpu_percent_def virtual_memory_percent_def
          active_count_def disk_usage_percent_def)
  let ?s = "snd (serve example_fmt (example_host\<lparr>environ := [''APP_VERSION'' \<mapsto> [CHR 0xFF]]\<rparr>)
                GET_get_info (startup 100))"
  have "REQUEST_COUNT_PER_VERSION ?s = [([CHR 0xFF], 1)]"
    by (simp add: serve_state handler_def get_info_state example_host_def getenv_def
          startup_def labels_inc_def labels_def child_value_def Counter_inc_def)
  then have "fst (metrics example_fmt example_host ?s) = Inl (Raised ''UnicodeEncodeError'')"
    by (simp add: metrics_sampled [OF example_samples] generate_latest_cases)
  then have 2: "status_code (fst (serve example_fmt example_host GET_metrics ?s)) \<noteq> 200"
    by (simp add: serve_response handler_def internal_server_error_def)
  from 1 2 show ?thesis by (simp add: example_samples)
qed

text \<open>
  Claim C4, amended. Whenever the five sampling calls of a \<^verbatim>\<open>GET /metrics\<close> request
  return and every version label counted so far is UTF-8 text, the answer has status
  200, the content type \<^verbatim>\<open>text/plain; version=0.0.4\<close> or equivalent (the library's
  \<^verbatim>\<open>CONTENT_TYPE_LATEST\<close>, which begins with that text), and a body that contains
  each of the seven metric names.
\<close>

theorem metrics_response:
  assumes "cpu_percent h = Inr a" and "virtual_memory_percent h = Inr b"
    and "time_time h = Inr c" and "active_count h = Inr d" and "disk_usage_percent h = Inr e"
    and "list_all (\<lambda>(v, n). utf8 v) (REQUEST_COUNT_PER_VERSION s)"
  shows "status_code (fst (serve fmt h GET_metrics s)) = 200
     \<and> media_type (fst (serve fmt h GET_metrics s)) = Some CONTENT_TYPE_LATEST
     \<and> prefix ''text/plain; version=0.0.4'' CONTENT_TYPE_LATEST
     \<and> sublist ''get_info_requests_total'' (body (fst (serve fmt h GET_metrics s)))
     \<and> sublist ''get_info_requests_total_by_version'' (body (fst (serve fmt h GET_metrics s)))
     \<and> sublist ''cpu_usage_percent'' (body (fst (serve fmt h GET_metrics s)))
     \<and> sublist ''memory_usage_percent'' (body (fst (serve fmt h GET_metrics s)))
     \<and> sublist ''uptime_seconds'' (body (fst (serve fmt h GET_metrics s)))
     \<and> sublist ''thread_count'' (body (fst (serve fmt h GET_metrics s)))
     \<and> sublist ''disk_usage_percent'' (body (fst (serve fmt h GET_metrics s)))"
proof -
  let ?s' = "s\<lparr>CPU_USAGE := a, MEMORY_USAGE := b, UPTIME := c - START_TIME s,
        THREAD_COUNT := real d, DISK_USAGE := e\<rparr>"
  have "fst (serve fmt h GET_metrics s) = Response (exposition fmt ?s') CONTENT_TYPE_LATEST"
    by (simp add: serve_response handler_def metrics_success [OF assms])
  moreover have "prefix ''text/plain; version=0.0.4'' CONTENT_TYPE_LATEST"
    by (simp add: CONTENT_TYPE_LATEST_def)
  ultimately show ?thesis
    by (simp only: body_Response exposition_names)
       (simp add: Response_def)
qed

theorem metrics_response_witness:
  "status_code (fst (serve example_fmt example_host GET_metrics
      (snd (serve example_fmt example_host GET_get_info (startup 100))))) = 200
   \<and> media_type (fst (serve example_fmt example_host GET_metrics
      (snd (serve example_fmt example_host GET_get_info (startup 100)))))
       = Some ''text/plain; version=0.0.4; charset=utf-8''
   \<and> sublist ''thread_count'' (body (fst (serve example_fmt example_host GET_metrics
      (snd (serve example_fmt example_host GET_get_info (startup 100))))))"
proof -
  let ?s = "snd (serve example_fmt example_host GET_get_info (startup 100))"
  have "REQUEST_COUNT_PER_VERSION ?s = [(''1.0'', 1)]"
    by (simp add: serve_state handler_def get_info_state example_host_def getenv_def
          startup_def labels_inc_def labels_def child_value_def Counter_inc_def)
  then have "list_all (\<lambda>(v, n). utf8 v) (REQUEST_COUNT_PER_VERSION ?s)"
    by simp
  from metrics_response [OF example_samples this, of example_fmt]
  show ?thesis by (simp add: CONTENT_TYPE_LATEST_def)
qed

text \<open>
  Claim C5 as stated fails. The up-time is the difference of two readings of the
  wall clock (\<^verbatim>\<open>time.time()\<close>): when the clock is set back between two successful
  \<^verbatim>\<open>GET /metrics\<close> calls, the second reports a smaller up-time than the first, and
  when it is set back to before \<^verbatim>\<open>START_TIME\<close>, the up-time reported is negative.
\<close>

theorem uptime_counterexample:
  "status_code (fst (serve example_fmt example_host GET_metrics (startup 100))) = 200
   \<and> status_code (fst (serve example_fmt (example_host\<lparr>time_time := Inr 105\<rparr>) GET_metrics
        (snd (serve example_fmt example_host GET_metrics (startup 100))))) = 200
   \<and> UPTIME (snd (serve example_fmt (example_host\<lparr>time_time := Inr 105\<rparr>) GET_metrics
        (snd (serve example_fmt example_host GET_metrics (startup 100)))))
     < UPTIME (snd (serve example_fmt example_host GET_metrics (startup 100)))
   \<and> status_code (fst (serve example_fmt (example_host\<lparr>time_time := Inr 90\<rparr>) GET_metrics
        (startup 100))) = 200
   \<and> UPTIME (snd (serve example_fmt (example_host\<lparr>time_time := Inr 90\<rparr>) GET_metrics
        (startup 100))) < 0"
  by (simp add: serve_def handler_def metrics_def example_host_def Let_def Response_def
        startup_def cpu_percent_def virtual_memory_percent_def active_count_def
        disk_usage_percent_def generate_latest_cases)

text \<open>
  Claim C5, amended. After a successful \<^verbatim>\<open>GET /metrics\<close> call every gauge holds
  exactly the value sampled during the call, and the body reports that value under
  the gauge's name. \<^verbatim>\<open>cpu_usage_percent\<close> and \<^verbatim>\<open>memory_usage_percent\<close> lie in
  \<open>[0, 100]\<close> and \<^verbatim>\<open>thread_count\<close> is at least 1. \<^verbatim>\<open>uptime_seconds\<close> is the clock
  reading minus \<^verbatim>\<open>START_TIME\<close>: at least 0 when the reading is not before
  \<^verbatim>\<open>START_TIME\<close>, and not smaller than the up-time of an earlier successful call
  (any requests in between) when the clock reading is not smaller than the earlier
  one.
\<close>

theorem metrics_gauges:
  assumes first: "metrics fmt h1 s0 = (Inr r1, s1)"
  shows "cpu_percent h1 = Inr (CPU_USAGE s1) \<and> 0 \<le> CPU_USAGE s1 \<and> CPU_USAGE s1 \<le> 100
     \<and> virtual_memory_percent h1 = Inr (MEMORY_USAGE s1)
     \<and> 0 \<le> MEMORY_USAGE s1 \<and> MEMORY_USAGE s1 \<le> 100
     \<and> (\<exists>n. active_count h1 = Inr n \<and> THREAD_COUNT s1 = real n) \<and> 1 \<le> THREAD_COUNT s1
     \<and> disk_usage_percent h1 = Inr (DISK_USAGE s1)
     \<and> (\<exists>t1. time_time h1 = Inr t1 \<and> UPTIME s1 = t1 - START_TIME s0
            \<and> (START_TIME s0 \<le> t1 \<longrightarrow> 0 \<le> UPTIME s1)
            \<and> (\<forall>h2 rs r2 s2 t2.
                  metrics fmt h2 (run fmt rs s1) = (Inr r2, s2) \<and> time_time h2 = Inr t2 \<longrightarrow>
                    UPTIME s2 = t2 - START_TIME s0 \<and> (t1 \<le> t2 \<longrightarrow> UPTIME s1 \<le> UPTIME s2)))
     \<and> sublist (''cpu_usage_percent '' @ fmt (CPU_USAGE s1) @ [CHR 0x0A]) (body r1)
     \<and> sublist (''memory_usage_percent '' @ fmt (MEMORY_USAGE s1) @ [CHR 0x0A]) (body r1)
     \<and> sublist (''uptime_seconds '' @ fmt (UPTIME s1) @ [CHR 0x0A]) (body r1)
     \<and> sublist (''thread_count '' @ fmt (THREAD_COUNT s1) @ [CHR 0x0A]) (body r1)
     \<and> sublist (''disk_usage_percent '' @ fmt (DISK_USAGE s1) @ [CHR 0x0A]) (body r1)"
proof -
  from metrics_InrD [OF first] obtain a b c d e where
    1: "cpu_percent h1 = Inr a" "virtual_memory_percent h1 = Inr b" "time_time h1 = Inr c"
       "active_count h1 = Inr d" "disk_usage_percent h1 = Inr e"
       "s1 = s0\<lparr>CPU_USAGE := a, MEMORY_USAGE := b, UPTIME := c - START_TIME s0,
                THREAD_COUNT := real d, DISK_USAGE := e\<rparr>"
       "r1 = Response (exposition fmt s1) CONTENT_TYPE_LATEST"
    by blast
  have up: "UPTIME s1 = c - START_TIME s0"
    by (simp add: 1(6))
  have later: "UPTIME s2 = t2 - START_TIME s0 \<and> (c \<le> t2 \<longrightarrow> UPTIME s1 \<le> UPTIME s2)"
    if "metrics fmt h2 (run fmt rs s1) = (Inr r2, s2)" and "time_time h2 = Inr t2"
    for h2 rs r2 s2 t2
  proof -
    from metrics_InrD [OF that(1)] that(2)
    have "s2 = (run fmt rs s1)\<lparr>UPTIME := t2 - START_TIME (run fmt rs s1)\<rparr>
                \<lparr>CPU_USAGE := CPU_USAGE s2, MEMORY_USAGE := MEMORY_USAGE s2,
                 THREAD_COUNT := THREAD_COUNT s2, DISK_USAGE := DISK_USAGE s2\<rparr>"
      by auto
    then have "UPTIME s2 = t2 - START_TIME (run fmt rs s1)"
      by (metis (no_types, lifting) app.select_convs(5) app.surjective app.update_convs(3,4,5,6,7))
    also have "START_TIME (run fmt rs s1) = START_TIME s0"
      by (simp add: run_START_TIME 1(6))
    finally show ?thesis by (simp add: up)
  qed
  have gauges: "CPU_USAGE s1 = a" "MEMORY_USAGE s1 = b" "THREAD_COUNT s1 = real d"
    "DISK_USAGE s1 = e"
    by (simp_all add: 1(6))
  have ranges: "0 \<le> a \<and> a \<le> 100" "0 \<le> b \<and> b \<le> 100" "1 \<le> d"
    using sampled_ranges(1) [OF 1(1)] sampled_ranges(2) [OF 1(2)] sampled_ranges(4) [OF 1(4)]
    by simp_all
  have reported:
    "sublist (''cpu_usage_percent '' @ fmt (CPU_USAGE s1) @ [CHR 0x0A]) (body r1)"
    "sublist (''memory_usage_percent '' @ fmt (MEMORY_USAGE s1) @ [CHR 0x0A]) (body r1)"
    "sublist (''uptime_seconds '' @ fmt (UPTIME s1) @ [CHR 0x0A]) (body r1)"
    "sublist (''thread_count '' @ fmt (THREAD_COUNT s1) @ [CHR 0x0A]) (body r1)"
    "sublist (''disk_usage_percent '' @ fmt (DISK_USAGE s1) @ [CHR 0x0A]) (body r1)"
    using exposition_gauges [of fmt s1] by (simp_all add: 1(7) body_Response)
  have times: "\<exists>t1. time_time h1 = Inr t1 \<and> UPTIME s1 = t1 - START_TIME s0
            \<and> (START_TIME s0 \<le> t1 \<longrightarrow> 0 \<le> UPTIME s1)
            \<and> (\<forall>h2 rs r2 s2 t2.
                  metrics fmt h2 (run fmt rs s1) = (Inr r2, s2) \<and> time_time h2 = Inr t2 \<longrightarrow>
                    UPTIME s2 = t2 - START_TIME s0 \<and> (t1 \<le> t2 \<longrightarrow> UPTIME s1 \<le> UPTIME s2))"
    using 1(3) up later by auto
  have threads: "(\<exists>n. active_count h1 = Inr n \<and> THREAD_COUNT s1 = real n) \<and> 1 \<le> THREAD_COUNT s1"
    using 1(4) gauges(3) ranges(3) by simp
  show ?thesis
    using 1(1,2,5) gauges ranges(1,2) threads times reported by (simp only:)
qed

theorem metrics_gauges_witness:
  "UPTIME (snd (metrics example_fmt example_host (startup 100))) = 10
   \<and> UPTIME (snd (metrics example_fmt (example_host\<lparr>time_time := Inr 120\<rparr>)
        (run example_fmt [(example_host, GET_get_info)]
           (snd (metrics example_fmt example_host (startup 100)))))) = 20
   \<and> CPU_USAGE (snd (metrics example_fmt example_host (startup 100))) = 12.5
   \<and> MEMORY_USAGE (snd (metrics example_fmt example_host (startup 100))) = 40
   \<and> THREAD_COUNT (snd (metrics example_fmt example_host (startup 100))) = 3
   \<and> DISK_USAGE (snd (metrics example_fmt example_host (startup 100))) = 55
   \<and> sublist (''thread_count 3.0'' @ [CHR 0x0A])
        (body (projr (fst (metrics example_fmt example_host (startup 100)))))"
proof -
  let ?m1 = "metrics example_fmt example_host (startup 100)"
  let ?s = "run example_fmt [(example_host, GET_get_info)] (snd ?m1)"
  let ?h2 = "example_host\<lparr>time_time := Inr 120\<rparr>"
  let ?m2 = "metrics example_fmt ?h2 ?s"
  have samples2: "cpu_percent ?h2 = Inr 12.5" "virtual_memory_percent ?h2 = Inr 40"
    "time_time ?h2 = Inr 120" "active_count ?h2 = Inr 3" "disk_usage_percent ?h2 = Inr 55"
    by (simp_all add: example_host_def cpu_percent_def virtual_memory_percent_def
          active_count_def disk_usage_percent_def percent_of.rep_eq)
  have 1: "?m1 = (Inr (projr (fst ?m1)), snd ?m1)"
    by (rule metrics_success_proj [OF example_samples]) (simp add: startup_def)
  have "REQUEST_COUNT_PER_VERSION ?s = [(''1.0'', 1)]"
    by (simp add: serve_state handler_def get_info_state metrics_counters example_host_def
          getenv_def startup_def labels_inc_def labels_def child_value_def Counter_inc_def)
  then have "list_all (\<lambda>(v, n). utf8 v) (REQUEST_COUNT_PER_VERSION ?s)"
    by simp
  then have 2: "?m2 = (Inr (projr (fst ?m2)), snd ?m2)"
    by (rule metrics_success_proj [OF samples2])
  note g = metrics_gauges [OF 1]
  from g have cpu: "cpu_percent example_host = Inr (CPU_USAGE (snd ?m1))"
    and mem: "virtual_memory_percent example_host = Inr (MEMORY_USAGE (snd ?m1))"
    and thr: "\<exists>n. active_count example_host = Inr n \<and> THREAD_COUNT (snd ?m1) = real n"
    and disk: "disk_usage_percent example_host = Inr (DISK_USAGE (snd ?m1))"
    and line: "sublist (''thread_count '' @ example_fmt (THREAD_COUNT (snd ?m1)) @ [CHR 0x0A])
                 (body (projr (fst ?m1)))"
    and up: "\<exists>t1. time_time example_host = Inr t1
          \<and> UPTIME (snd ?m1) = t1 - START_TIME (startup 100)
          \<and> (START_TIME (startup 100) \<le> t1 \<longrightarrow> 0 \<le> UPTIME (snd ?m1))
          \<and> (\<forall>h2 rs r2 s2 t2.
                metrics example_fmt h2 (run example_fmt rs (snd ?m1)) = (Inr r2, s2)
                  \<and> time_time h2 = Inr t2 \<longrightarrow>
                UPTIME s2 = t2 - START_TIME (startup 100)
                  \<and> (t1 \<le> t2 \<longrightarrow> UPTIME (snd ?m1) \<le> UPTIME s2))"
    by (simp_all only:)
  from up 2 samples2(3) have up2: "UPTIME (snd ?m2) = 120 - START_TIME (startup 100)"
    by blast
  from up have up1: "UPTIME (snd ?m1) = 110 - START_TIME (startup 100)"
    by (auto simp: example_samples)
  have vals: "CPU_USAGE (snd ?m1) = 12.5" "MEMORY_USAGE (snd ?m1) = 40"
    "THREAD_COUNT (snd ?m1) = 3" "DISK_USAGE (snd ?m1) = 55"
    using cpu mem thr disk by (auto simp: example_samples)
  from line have "sublist (''thread_count 3.0'' @ [CHR 0x0A]) (body (projr (fst ?m1)))"
    by (simp add: vals example_fmt_def)
  with up1 up2 vals show ?thesis
    by (simp add: startup_def)
qed

subsection \<open>\<^verbatim>\<open>/\<close>\<close>

text \<open>
  Claim C6 as stated fails. The redirect of \<^verbatim>\<open>GET /\<close> does not have status 302:
  the source passes no \<^verbatim>\<open>status_code\<close> to \<^verbatim>\<open>RedirectResponse\<close>, whose default is
  307.
\<close>

theorem root_status_counterexample:
  "status_code (fst (serve example_fmt example_host GET_root (startup 100))) \<noteq> 302"
  by (simp add: serve_def handler_def root_handler_def RedirectResponse_def)

text \<open>
  Claim C6, amended. \<^verbatim>\<open>GET /\<close> always answers with a redirect of status 307
  (Temporary Redirect), whose target location is \<^verbatim>\<open>/get_info\<close>.
\<close>

theorem root_redirect:
  "status_code (fst (serve fmt h GET_root s)) = 307
   \<and> location (fst (serve fmt h GET_root s)) = Some ''/get_info''"
  by (simp add: serve_def handler_def root_handler_def RedirectResponse_def)

text \<open>
  Claim C8. The root handler leaves the whole process state, every counter and
  every gauge, as it was.
\<close>

theorem root_no_side_effects:
  "snd (root_handler s) = s \<and> snd (serve fmt h GET_root s) = s"
  by (simp add: serve_def handler_def root_handler_def)

subsection \<open>A sampling call that raises\<close>

text \<open>
  Claim C7. When one of the five sampling calls of \<^verbatim>\<open>GET /metrics\<close> raises, the
  exception of a raising call leaves the handler, and the request is answered with
  status 500 and the text \<^verbatim>\<open>Internal Server Error\<close>: nothing of the exposition is
  sent. The handler makes each call once, so each call has one result per request;
  the answer is the 500 whatever the results of the other calls are.
\<close>

theorem metrics_exception_propagates:
  assumes "isl (cpu_percent h) \<or> isl (virtual_memory_percent h) \<or> isl (time_time h)
     \<or> isl (active_count h) \<or> isl (disk_usage_percent h)"
  shows "(\<exists>e. fst (metrics fmt h s) = Inl e
            \<and> (cpu_percent h = Inl e \<or> virtual_memory_percent h = Inl e \<or> time_time h = Inl e
                 \<or> active_count h = Inl e \<or> disk_usage_percent h = Inl e))
     \<and> fst (serve fmt h GET_metrics s) = internal_server_error
     \<and> status_code (fst (serve fmt h GET_metrics s)) = 500
     \<and> body (fst (serve fmt h GET_metrics s)) = ''Internal Server Error''"
proof -
  have raised: "\<exists>e. fst (metrics fmt h s) = Inl e
            \<and> (cpu_percent h = Inl e \<or> virtual_memory_percent h = Inl e \<or> time_time h = Inl e
                 \<or> active_count h = Inl e \<or> disk_usage_percent h = Inl e)"
    using assms by (auto simp: metrics_def Let_def split: sum.splits)
  then have "fst (serve fmt h GET_metrics s) = internal_server_error"
    by (auto simp: serve_response handler_def)
  with raised show ?thesis
    by (simp add: internal_server_error_def body_def)
qed

theorem metrics_exception_propagates_witness:
  "fst (metrics example_fmt (example_host\<lparr>psutil_cpu := Inl (Raised ''AccessDenied'')\<rparr>)
      (startup 100)) = Inl (Raised ''AccessDenied'')
   \<and> status_code (fst (serve example_fmt
        (example_host\<lparr>psutil_cpu := Inl (Raised ''AccessDenied'')\<rparr>) GET_metrics (startup 100))) = 500"
  using metrics_exception_propagates
    [of "example_host\<lparr>psutil_cpu := Inl (Raised ''AccessDenied'')\<rparr>" example_fmt "startup 100"]
  by (auto simp: example_host_def cpu_percent_def virtual_memory_percent_def
        active_count_def disk_usage_percent_def)

text \<open>
  Claim C9. The gauges are set in the order CPU, memory, up-time, thread count,
  disk, each right after its own sample. When a call raises, the gauges of the
  statements before it hold their fresh samples and the others keep their old
  values, although the request fails: a failed scrape can change the state.
\<close>

theorem metrics_partial_update:
  "(cpu_percent h = Inl x \<longrightarrow> metrics fmt h s = (Inl x, s))
   \<and> (cpu_percent h = Inr cpu \<and> virtual_memory_percent h = Inl x \<longrightarrow>
        metrics fmt h s = (Inl x, s\<lparr>CPU_USAGE := cpu\<rparr>))
   \<and> (cpu_percent h = Inr cpu \<and> virtual_memory_percent h = Inr mem \<and> time_time h = Inl x \<longrightarrow>
        metrics fmt h s = (Inl x, s\<lparr>CPU_USAGE := cpu, MEMORY_USAGE := mem\<rparr>))
   \<and> (cpu_percent h = Inr cpu \<and> virtual_memory_percent h = Inr mem \<and> time_time h = Inr now
        \<and> active_count h = Inl x \<longrightarrow>
        metrics fmt h s =
          (Inl x, s\<lparr>CPU_USAGE := cpu, MEMORY_USAGE := mem, UPTIME := now - START_TIME s\<rparr>))
   \<and> (cpu_percent h = Inr cpu \<and> virtual_memory_percent h = Inr mem \<and> time_time h = Inr now
        \<and> active_count h = Inr n \<and> disk_usage_percent h = Inl x \<longrightarrow>
        metrics fmt h s =
          (Inl x, s\<lparr>CPU_USAGE := cpu, MEMORY_USAGE := mem, UPTIME := now - START_TIME s,
                    THREAD_COUNT := real n\<rparr>))"
  by (simp add: metrics_def Let_def)

theorem metrics_partial_update_witness:
  "metrics example_fmt (example_host\<lparr>psutil_cpu := Inl (Raised ''OSError'')\<rparr>) (startup 100)
     = (Inl (Raised ''OSError''), startup 100)
   \<and> metrics example_fmt (example_host\<lparr>psutil_memory := Inl (Raised ''OSError'')\<rparr>)
       (startup 100)
     = (Inl (Raised ''OSError''), (startup 100)\<lparr>CPU_USAGE := 12.5\<rparr>)
   \<and> metrics example_fmt (example_host\<lparr>time_time := Inl (Raised ''OSError'')\<rparr>) (startup 100)
     = (Inl (Raised ''OSError''), (startup 100)\<lparr>CPU_USAGE := 12.5, MEMORY_USAGE := 40\<rparr>)
   \<and> metrics example_fmt (example_host\<lparr>other_threads := Inl (Raised ''OSError'')\<rparr>) (startup 100)
     = (Inl (Raised ''OSError''),
        (startup 100)\<lparr>CPU_USAGE := 12.5, MEMORY_USAGE := 40, UPTIME := 10\<rparr>)
   \<and> metrics example_fmt (example_host\<lparr>psutil_disk := Inl (Raised ''OSError'')\<rparr>)
       (startup 100)
     = (Inl (Raised ''OSError''),
        (startup 100)\<lparr>CPU_USAGE := 12.5, MEMORY_USAGE := 40, UPTIME := 10, THREAD_COUNT := 3\<rparr>)
   \<and> (startup 100)\<lparr>CPU_USAGE := 12.5, MEMORY_USAGE := 40, UPTIME := 10, THREAD_COUNT := 3\<rparr>
       \<noteq> startup 100"
  using
    metrics_partial_update
      [of "example_host\<lparr>psutil_cpu := Inl (Raised ''OSError'')\<rparr>"
          "Raised ''OSError''" example_fmt "startup 100" "12.5" 40 110 3]
    metrics_partial_update
      [of "example_host\<lparr>psutil_memory := Inl (Raised ''OSError'')\<rparr>"
          "Raised ''OSError''" example_fmt "startup 100" "12.5" 40 110 3]
    metrics_partial_update
      [of "example_host\<lparr>time_time := Inl (Raised ''OSError'')\<rparr>"
          "Raised ''OSError''" example_fmt "startup 100" "12.5" 40 110 3]
    metrics_partial_update
      [of "example_host\<lparr>other_threads := Inl (Raised ''OSError'')\<rparr>"
          "Raised ''OSError''" example_fmt "startup 100" "12.5" 40 110 3]
    metrics_partial_update
      [of "example_host\<lparr>psutil_disk := Inl (Raised ''OSError'')\<rparr>"
          "Raised ''OSError''" example_fmt "startup 100" "12.5" 40 110 3]
  by (simp add: example_host_def startup_def cpu_percent_def virtual_memory_percent_def
        active_count_def disk_usage_percent_def percent_of.rep_eq)

subsection \<open>One series per version\<close>

lemma run_keys:
  "fst ` set (REQUEST_COUNT_PER_VERSION (run fmt rs s)) =
     fst ` set (REQUEST_COUNT_PER_VERSION s) \<union>
     set (map (\<lambda>(h, r). getenv (environ h) ''APP_VERSION'' ''1.0'')
            (filter (\<lambda>(h, r). r = GET_get_info) rs))"
proof (induction rs arbitrary: s)
  case Nil
  then show ?case by simp
next
  case (Cons hr rs)
  obtain h r where hr: "hr = (h, r)" by (cases hr)
  show ?case
    by (cases r)
       (auto simp: hr Cons.IH serve_state handler_def root_handler_def get_info_state
          metrics_counters keys_labels_inc)
qed

lemma run_distinct:
  "distinct (map fst (REQUEST_COUNT_PER_VERSION s)) \<Longrightarrow>
   distinct (map fst (REQUEST_COUNT_PER_VERSION (run fmt rs s)))"
proof (induction rs arbitrary: s)
  case Nil
  then show ?case by simp
next
  case (Cons hr rs)
  obtain h r where hr: "hr = (h, r)" by (cases hr)
  have "distinct (map fst (REQUEST_COUNT_PER_VERSION (snd (serve fmt h r s))))"
    using Cons.prems
    by (cases r)
       (simp_all add: serve_state handler_def root_handler_def get_info_state
          metrics_counters distinct_labels_inc)
  then show ?case by (simp add: hr Cons.IH)
qed

text \<open>
  Claim C10 as stated fails. After a \<^verbatim>\<open>GET /get_info\<close> for the version
  \<^verbatim>\<open>1.0\<close>, a successful \<^verbatim>\<open>GET /metrics\<close> lists no series named
  \<^verbatim>\<open>get_info_requests_total_by_version{version=...}\<close>: the text
  \<^verbatim>\<open>get_info_requests_total_by_version{\<close> does not occur in the exposition of the
  seven metrics.
\<close>

theorem version_series_counterexample:
  "child_value (REQUEST_COUNT_PER_VERSION
      (snd (serve example_fmt example_host GET_get_info (startup 100)))) ''1.0'' = 1
   \<and> status_code (fst (serve example_fmt example_host GET_metrics
        (snd (serve example_fmt example_host GET_get_info (startup 100))))) = 200
   \<and> \<not> sublist ''get_info_requests_total_by_version{''
        (body (fst (serve example_fmt example_host GET_metrics
          (snd (serve example_fmt example_host GET_get_info (startup 100))))))"
proof -
  let ?s = "snd (serve example_fmt example_host GET_get_info (startup 100))"
  have kids: "REQUEST_COUNT_PER_VERSION ?s = [(''1.0'', 1)]"
    by (simp add: serve_state handler_def get_info_state example_host_def getenv_def
          startup_def labels_inc_def labels_def child_value_def Counter_inc_def)
  then have ok: "list_all (\<lambda>(v, n). utf8 v) (REQUEST_COUNT_PER_VERSION ?s)"
    by simp
  have count: "REQUEST_COUNT ?s = 1"
    by (simp add: serve_state handler_def get_info_state startup_def)
  let ?s' = "?s\<lparr>CPU_USAGE := 12.5, MEMORY_USAGE := 40, UPTIME := 110 - START_TIME ?s,
        THREAD_COUNT := real (3::nat), DISK_USAGE := 55\<rparr>"
  have resp: "fst (serve example_fmt example_host GET_metrics ?s)
      = Response (exposition example_fmt ?s') CONTENT_TYPE_LATEST"
    by (simp add: serve_response handler_def metrics_success [OF example_samples ok])
  have start: "START_TIME ?s = 100"
    by (simp add: serve_state handler_START_TIME startup_def)
  have rendered: "exposition example_fmt ?s' =
      ''# HELP get_info_requests_total Total number of GET /get_info requests'' @ [CHR 0x0A] @
      ''# TYPE get_info_requests_total counter'' @ [CHR 0x0A] @
      ''get_info_requests_total 1.0'' @ [CHR 0x0A] @
      ''# HELP get_info_requests_total_by_version_total GET /get_info requests by app version''
        @ [CHR 0x0A] @
      ''# TYPE get_info_requests_total_by_version_total counter'' @ [CHR 0x0A] @
      ''get_info_requests_total_by_version_total{version='' @ [CHR 0x22] @ ''1.0'' @ [CHR 0x22]
        @ ''} 1.0'' @ [CHR 0x0A] @
      ''# HELP cpu_usage_percent CPU usage percentage'' @ [CHR 0x0A] @
      ''# TYPE cpu_usage_percent gauge'' @ [CHR 0x0A] @
      ''cpu_usage_percent ?'' @ [CHR 0x0A] @
      ''# HELP memory_usage_percent Memory usage percentage'' @ [CHR 0x0A] @
      ''# TYPE memory_usage_percent gauge'' @ [CHR 0x0A] @
      ''memory_usage_percent ?'' @ [CHR 0x0A] @
      ''# HELP uptime_seconds App uptime in seconds'' @ [CHR 0x0A] @
      ''# TYPE uptime_seconds gauge'' @ [CHR 0x0A] @
      ''uptime_seconds ?'' @ [CHR 0x0A] @
      ''# HELP thread_count Number of active threads'' @ [CHR 0x0A] @
      ''# TYPE thread_count gauge'' @ [CHR 0x0A] @
      ''thread_count 3.0'' @ [CHR 0x0A] @
      ''# HELP disk_usage_percent Disk usage percentage'' @ [CHR 0x0A] @
      ''# TYPE disk_usage_percent gauge'' @ [CHR 0x0A] @
      ''disk_usage_percent ?'' @ [CHR 0x0A]"
    by (simp add: exposition_def collect_def render_def Counter_def Gauge_def
          build_full_name_def sample_line_def labelstr_def escape_def escape_char_def
          type_name_def newline_def example_fmt_def Let_def kids count start)
  have absent: "\<not> sublist ''get_info_requests_total_by_version{'' (exposition example_fmt ?s')"
    unfolding rendered by code_simp
  have "child_value (REQUEST_COUNT_PER_VERSION ?s) ''1.0'' = 1"
    by (simp add: kids child_value_def)
  with resp absent show ?thesis
    by (simp add: body_Response) (simp add: Response_def)
qed

text \<open>
  Claim C10, amended. The labelled counter is keyed by the \<^verbatim>\<open>APP_VERSION\<close> value
  that each \<^verbatim>\<open>GET /get_info\<close> request reads from its environment. After a run, the
  child of \<open>v\<close> has grown by the number of \<^verbatim>\<open>GET /get_info\<close> requests that saw
  \<open>v\<close>; the label values are those present before together with every value seen;
  no value has two children; and a successful \<^verbatim>\<open>GET /metrics\<close> lists, for every
  child, the line
  \<^verbatim>\<open>get_info_requests_total_by_version_total{version="..."}\<close> with the escaped label
  value and the child's own count: the library names the sample of a counter with
  the suffix \<^verbatim>\<open>_total\<close>.
\<close>

theorem version_series:
  "child_value (REQUEST_COUNT_PER_VERSION (run fmt rs s)) v =
      child_value (REQUEST_COUNT_PER_VERSION s) v
        + length (filter (\<lambda>(h, r). r = GET_get_info \<and>
                            getenv (environ h) ''APP_VERSION'' ''1.0'' = v) rs)
   \<and> fst ` set (REQUEST_COUNT_PER_VERSION (run fmt rs s)) =
        fst ` set (REQUEST_COUNT_PER_VERSION s) \<union>
        set (map (\<lambda>(h, r). getenv (environ h) ''APP_VERSION'' ''1.0'')
               (filter (\<lambda>(h, r). r = GET_get_info) rs))
   \<and> (distinct (map fst (REQUEST_COUNT_PER_VERSION s)) \<longrightarrow>
        distinct (map fst (REQUEST_COUNT_PER_VERSION (run fmt rs s))))
   \<and> (\<forall>(v', c) \<in> set (REQUEST_COUNT_PER_VERSION (run fmt rs s)).
        \<forall>h resp s'. metrics fmt h (run fmt rs s) = (Inr resp, s') \<longrightarrow>
          sublist (''get_info_requests_total_by_version_total{version='' @ [CHR 0x22]
                     @ escape True v' @ [CHR 0x22] @ ''} '' @ fmt (real c) @ [CHR 0x0A])
                  (body resp))"
proof -
  have listed: "sublist (''get_info_requests_total_by_version_total{version='' @ [CHR 0x22]
                     @ escape True v' @ [CHR 0x22] @ ''} '' @ fmt (real c) @ [CHR 0x0A])
                  (body resp)"
    if "(v', c) \<in> set (REQUEST_COUNT_PER_VERSION (run fmt rs s))"
      and "metrics fmt h (run fmt rs s) = (Inr resp, s')" for v' c h resp s'
  proof -
    from metrics_InrD [OF that(2)]
    have resp: "resp = Response (exposition fmt s') CONTENT_TYPE_LATEST" by blast
    have "REQUEST_COUNT_PER_VERSION s' = REQUEST_COUNT_PER_VERSION (run fmt rs s)"
      using metrics_counters(2) [of fmt h "run fmt rs s"] that(2) by simp
    with that(1) have "(v', c) \<in> set (REQUEST_COUNT_PER_VERSION s')" by simp
    then show ?thesis
      by (simp only: resp body_Response exposition_version_line)
  qed
  show ?thesis
    using run_child_value [of fmt rs s v] run_keys [of fmt rs s] run_distinct [of s fmt rs] listed
    by blast
qed

theorem version_series_witness:
  "child_value (REQUEST_COUNT_PER_VERSION (run example_fmt
       [(example_host, GET_get_info),
        (example_host\<lparr>environ := [''APP_VERSION'' \<mapsto> ''2.0'']\<rparr>, GET_get_info),
        (example_host, GET_get_info)] (startup 100))) ''1.0'' = 2
   \<and> child_value (REQUEST_COUNT_PER_VERSION (run example_fmt
       [(example_host, GET_get_info),
        (example_host\<lparr>environ := [''APP_VERSION'' \<mapsto> ''2.0'']\<rparr>, GET_get_info),
        (example_host, GET_get_info)] (startup 100))) ''2.0'' = 1
   \<and> fst ` set (REQUEST_COUNT_PER_VERSION (run example_fmt
       [(example_host, GET_get_info),
        (example_host\<lparr>environ := [''APP_VERSION'' \<mapsto> ''2.0'']\<rparr>, GET_get_info),
        (example_host, GET_get_info)] (startup 100))) = {''1.0'', ''2.0''}
   \<and> distinct (map fst (REQUEST_COUNT_PER_VERSION (run example_fmt
       [(example_host, GET_get_info),
        (example_host\<lparr>environ := [''APP_VERSION'' \<mapsto> ''2.0'']\<rparr>, GET_get_info),
        (example_host, GET_get_info)] (startup 100))))
   \<and> sublist
        (''get_info_requests_total_by_version_total{version='' @ [CHR 0x22] @ ''1.0'' @ [CHR 0x22]
           @ ''} 2.0'' @ [CHR 0x0A])
        (body (projr (fst (metrics example_fmt example_host (run example_fmt
           [(example_host, GET_get_info),
            (example_host\<lparr>environ := [''APP_VERSION'' \<mapsto> ''2.0'']\<rparr>, GET_get_info),
            (example_host, GET_get_info)] (startup 100))))))
   \<and> sublist
        (''get_info_requests_total_by_version_total{version='' @ [CHR 0x22] @ ''2.0'' @ [CHR 0x22]
           @ ''} 1.0'' @ [CHR 0x0A])
        (body (projr (fst (metrics example_fmt example_host (run example_fmt
           [(example_host, GET_get_info),
            (example_host\<lparr>environ := [''APP_VERSION'' \<mapsto> ''2.0'']\<rparr>, GET_get_info),
            (example_host, GET_get_info)] (startup 100))))))"
proof -
  let ?rs = "[(example_host, GET_get_info),
        (example_host\<lparr>environ := [''APP_VERSION'' \<mapsto> ''2.0'']\<rparr>, GET_get_info),
        (example_host, GET_get_info)]"
  let ?s = "run example_fmt ?rs (startup 100)"
  let ?m = "metrics example_fmt example_host ?s"
  note series = version_series [of example_fmt ?rs "startup 100"]
  have counts: "child_value (REQUEST_COUNT_PER_VERSION ?s) ''1.0'' = 2"
    "child_value (REQUEST_COUNT_PER_VERSION ?s) ''2.0'' = 1"
    using series [of "''1.0''"] series [of "''2.0''"]
    by (simp_all add: example_host_def getenv_def startup_def child_value_def)
  have keys: "fst ` set (REQUEST_COUNT_PER_VERSION ?s) = {''1.0'', ''2.0''}"
    using series [of "''1.0''"]
    by (auto simp: example_host_def getenv_def startup_def)
  have one_each: "distinct (map fst (REQUEST_COUNT_PER_VERSION ?s))"
    using series [of "''1.0''"] by (simp add: startup_def)
  have children: "REQUEST_COUNT_PER_VERSION ?s = [(''1.0'', 2), (''2.0'', 1)]"
    by (simp add: serve_state handler_def get_info_state example_host_def getenv_def
          startup_def labels_inc_def labels_def child_value_def Counter_inc_def)
  then have ok: "list_all (\<lambda>(v, n). utf8 v) (REQUEST_COUNT_PER_VERSION ?s)"
    by simp
  have scrape: "?m = (Inr (projr (fst ?m)), snd ?m)"
    by (rule metrics_success_proj [OF example_samples ok])
  have "\<forall>(v', c) \<in> set (REQUEST_COUNT_PER_VERSION ?s).
        \<forall>h resp s'. metrics example_fmt h ?s = (Inr resp, s') \<longrightarrow>
          sublist (''get_info_requests_total_by_version_total{version='' @ [CHR 0x22]
                     @ escape True v' @ [CHR 0x22] @ ''} '' @ example_fmt (real c) @ [CHR 0x0A])
                  (body resp)"
    using series [of "''1.0''"] by blast
  with scrape
  have "\<forall>(v', c) \<in> set (REQUEST_COUNT_PER_VERSION ?s).
          sublist (''get_info_requests_total_by_version_total{version='' @ [CHR 0x22]
                     @ escape True v' @ [CHR 0x22] @ ''} '' @ example_fmt (real c) @ [CHR 0x0A])
                  (body (projr (fst ?m)))"
    by blast
  then have
    "sublist (''get_info_requests_total_by_version_total{version='' @ [CHR 0x22] @ ''1.0''
                @ [CHR 0x22] @ ''} 2.0'' @ [CHR 0x0A]) (body (projr (fst ?m)))"
    "sublist (''get_info_requests_total_by_version_total{version='' @ [CHR 0x22] @ ''2.0''
                @ [CHR 0x22] @ ''} 1.0'' @ [CHR 0x0A]) (body (projr (fst ?m)))"
    unfolding children
    by (simp_all add: escape_def escape_char_def example_fmt_def)
  with counts keys one_each show ?thesis by simp
qed

end
